theory Spec2Isabelle
  imports Main
begin

section \<open>Template service: configuration, lifecycle and health endpoint\<close>

text \<open>
  A shallow embedding of \<^verbatim>\<open>src/services/template-service/src/main.py\<close>.
  The module reads two connection strings from the process environment, rewrites the
  scheme of the database URL, runs a start-up / shut-down generator (\<^verbatim>\<open>lifespan\<close>)
  around the serving phase and answers \<^verbatim>\<open>GET /health\<close>.
  Library calls (SQLAlchemy, redis, the clock) are the environment: their outcomes are
  fields of a record \<open>world\<close>, so that every theorem holds for every behaviour of the
  libraries.
\<close>

subsection \<open>Python exceptions\<close>

text \<open>
  The module has two kinds of handler: \<^verbatim>\<open>except Exception as e\<close> (line 52) and a bare
  \<^verbatim>\<open>except:\<close> (line 91). They differ on the exceptions that derive from
  \<^verbatim>\<open>BaseException\<close> but not from \<^verbatim>\<open>Exception\<close> (\<^verbatim>\<open>KeyboardInterrupt\<close>,
  \<^verbatim>\<open>SystemExit\<close>, \<^verbatim>\<open>asyncio.CancelledError\<close>), so a raised exception carries its
  place in the hierarchy and its message (what \<^verbatim>\<open>str(e)\<close> returns).
\<close>

datatype exn =
    Exception string       \<comment> \<open>an instance of \<^verbatim>\<open>Exception\<close> or of a subclass\<close>
  | BaseException string   \<comment> \<open>an instance of \<^verbatim>\<open>BaseException\<close> outside \<^verbatim>\<open>Exception\<close>\<close>

fun str :: "exn \<Rightarrow> string" where
  "str (Exception m) = m"
| "str (BaseException m) = m"

fun except_Exception :: "exn \<Rightarrow> bool" where
  \<comment> \<open>does \<^verbatim>\<open>except Exception\<close> match?\<close>
  "except_Exception (Exception m) = True"
| "except_Exception (BaseException m) = False"

fun except_bare :: "exn \<Rightarrow> bool" where
  \<comment> \<open>does a bare \<^verbatim>\<open>except:\<close> match? It matches every \<^verbatim>\<open>BaseException\<close>.\<close>
  "except_bare (Exception m) = True"
| "except_bare (BaseException m) = True"

subsection \<open>Strings\<close>

fun startswith :: "string \<Rightarrow> string \<Rightarrow> bool" where
  \<comment> \<open>\<^verbatim>\<open>s.startswith(p)\<close>\<close>
  "startswith s [] = True"
| "startswith [] (p # ps) = False"
| "startswith (c # cs) (p # ps) = (c = p \<and> startswith cs ps)"

fun replace_first :: "string \<Rightarrow> string \<Rightarrow> string \<Rightarrow> string" where
  \<comment> \<open>\<^verbatim>\<open>s.replace(old, new, 1)\<close>: the leftmost occurrence of \<open>old\<close> is replaced, the
      rest of \<open>s\<close> is kept; without an occurrence \<open>s\<close> is returned\<close>
  "replace_first [] old new = (if old = [] then new else [])"
| "replace_first (c # cs) old new =
     (if startswith (c # cs) old then new @ drop (length old) (c # cs)
      else c # replace_first cs old new)"

subsection \<open>Configuration (lines 26--32)\<close>

definition generic_scheme :: string where
  "generic_scheme = ''postgresql://''"

definition asyncpg_scheme :: string where
  "asyncpg_scheme = ''postgresql+asyncpg://''"

definition normalize_url :: "string option \<Rightarrow> string option" where
  \<comment> \<open>lines 28--29; \<open>None\<close> (variable unset) and the empty string are falsy\<close>
  "normalize_url url =
     (case url of
        None \<Rightarrow> None
      | Some s \<Rightarrow>
          if s \<noteq> [] \<and> startswith s generic_scheme
          then Some (replace_first s generic_scheme asyncpg_scheme)
          else Some s)"

definition DATABASE_URL :: "(string \<rightharpoonup> string) \<Rightarrow> string option" where
  \<comment> \<open>\<open>environ\<close> is the process environment after \<^verbatim>\<open>load_dotenv()\<close>\<close>
  "DATABASE_URL environ = normalize_url (environ ''DATABASE_URL'')"

definition REDIS_URL :: "(string \<rightharpoonup> string) \<Rightarrow> string option" where
  "REDIS_URL environ = environ ''REDIS_URL''"

subsection \<open>Resources, the state container and the environment\<close>

text \<open>
  Library objects are opaque handles. The module \<^verbatim>\<open>src.services.state\<close> is the
  process-wide container of three references; an unset reference is \<^verbatim>\<open>None\<close>.
  None of the three library classes defines \<^verbatim>\<open>__bool__\<close> or \<^verbatim>\<open>__len__\<close>, so
  \<^verbatim>\<open>if state.engine:\<close> tests for \<^verbatim>\<open>None\<close>.
\<close>

type_synonym AsyncEngine = nat
type_synonym Sessionmaker = nat
type_synonym AsyncConnection = nat
type_synonym AsyncSession = nat
type_synonym Redis = nat

record state =
  engine :: "AsyncEngine option"
  async_session :: "Sessionmaker option"
  redis_client :: "Redis option"

record datetime =
  year :: nat
  month :: nat
  day :: nat
  hour :: nat
  minute :: nat
  second :: nat
  microsecond :: nat

text \<open>
  What the libraries do when called: \<open>Inl e\<close> or \<open>Some e\<close> is the exception the call
  raises, \<open>Inr h\<close> the object it returns, \<open>None\<close> a normal return. An \<^verbatim>\<open>__aexit__\<close>
  receives the exception of the block it closes (\<open>None\<close> when the block ended normally);
  SQLAlchemy's context managers never swallow it.
\<close>

record world =
  create_async_engine :: "string option \<Rightarrow> exn + AsyncEngine"
  async_sessionmaker :: "AsyncEngine \<Rightarrow> exn + Sessionmaker"
  engine_begin :: "AsyncEngine \<Rightarrow> exn + AsyncConnection"
  run_sync_create_all :: "AsyncConnection \<Rightarrow> exn option"
  begin_aexit :: "AsyncConnection \<Rightarrow> exn option \<Rightarrow> exn option"
  from_url :: "string option \<Rightarrow> exn + Redis"
  served :: "exn option"
    \<comment> \<open>the exception thrown into the generator at \<^verbatim>\<open>yield\<close>, if the serving phase raised\<close>
  engine_dispose :: "AsyncEngine \<Rightarrow> exn option"
  redis_close :: "Redis \<Rightarrow> exn option"
  session_open :: "Sessionmaker \<Rightarrow> exn + AsyncSession"
    \<comment> \<open>\<^verbatim>\<open>state.async_session()\<close> followed by \<^verbatim>\<open>__aenter__\<close>\<close>
  session_execute :: "AsyncSession \<Rightarrow> exn option"
  session_aexit :: "AsyncSession \<Rightarrow> exn option \<Rightarrow> exn option"
  now_utc :: datetime

datatype event =
    Create_engine "string option"
  | Make_sessionmaker AsyncEngine
  | Begin AsyncEngine
  | Create_all AsyncConnection
  | Begin_exit AsyncConnection "exn option"
  | From_url "string option"
  | Log_info string
  | Log_error string
  | Yield
  | Dispose AsyncEngine
  | Close Redis

subsection \<open>Statements with state, a trace and exceptions\<close>

text \<open>
  A statement runs on the state container and the trace of library calls made so far;
  it ends by raising (\<open>Inl\<close>) or by returning a value (\<open>Inr\<close>). An \<^verbatim>\<open>await\<close> inside
  one coroutine is a call that has returned before the next statement starts.
\<close>

type_synonym 'a io = "state \<times> event list \<Rightarrow> (exn + 'a) \<times> state \<times> event list"

definition io_return :: "'a \<Rightarrow> 'a io" where
  "io_return x = (\<lambda>\<sigma>. (Inr x, \<sigma>))"

definition io_raise :: "exn \<Rightarrow> 'a io" where
  "io_raise e = (\<lambda>\<sigma>. (Inl e, \<sigma>))"

definition io_bind :: "'a io \<Rightarrow> ('a \<Rightarrow> 'b io) \<Rightarrow> 'b io" where
  "io_bind m f = (\<lambda>\<sigma>. case m \<sigma> of (Inl e, \<sigma>') \<Rightarrow> (Inl e, \<sigma>') | (Inr x, \<sigma>') \<Rightarrow> f x \<sigma>')"

definition emit :: "event \<Rightarrow> unit io" where
  "emit ev = (\<lambda>(s, tr). (Inr (), s, tr @ [ev]))"

definition gets :: "(state \<Rightarrow> 'a) \<Rightarrow> 'a io" where
  "gets f = (\<lambda>(s, tr). (Inr (f s), s, tr))"

definition modify :: "(state \<Rightarrow> state) \<Rightarrow> unit io" where
  "modify f = (\<lambda>(s, tr). (Inr (), f s, tr))"

definition call :: "event \<Rightarrow> exn + 'a \<Rightarrow> 'a io" where
  \<comment> \<open>a library call that returns an object or raises\<close>
  "call ev outcome =
     io_bind (emit ev) (\<lambda>_. case outcome of Inl e \<Rightarrow> io_raise e | Inr x \<Rightarrow> io_return x)"

definition call_unit :: "event \<Rightarrow> exn option \<Rightarrow> unit io" where
  \<comment> \<open>a library call made for its effect\<close>
  "call_unit ev outcome =
     io_bind (emit ev) (\<lambda>_. case outcome of Some e \<Rightarrow> io_raise e | None \<Rightarrow> io_return ())"

definition try_except :: "'a io \<Rightarrow> (exn \<Rightarrow> bool) \<Rightarrow> (exn \<Rightarrow> 'a io) \<Rightarrow> 'a io" where
  \<comment> \<open>\<^verbatim>\<open>try: m except <matches> as e: handler e\<close>\<close>
  "try_except m matches handler =
     (\<lambda>\<sigma>. case m \<sigma> of
            (Inl e, \<sigma>') \<Rightarrow> if matches e then handler e \<sigma>' else (Inl e, \<sigma>')
          | (Inr x, \<sigma>') \<Rightarrow> (Inr x, \<sigma>'))"

definition async_with ::
  "'c io \<Rightarrow> ('c \<Rightarrow> exn option \<Rightarrow> unit io) \<Rightarrow> ('c \<Rightarrow> unit io) \<Rightarrow> unit io" where
  \<comment> \<open>\<^verbatim>\<open>async with <enter> as c: body c\<close>; the exit runs on both ways out of the body,
      an exception of the exit replaces the body's, otherwise the body's is re-raised\<close>
  "async_with enter exit body =
     io_bind enter (\<lambda>c \<sigma>.
       case body c \<sigma> of
         (Inl e, \<sigma>') \<Rightarrow>
           (case exit c (Some e) \<sigma>' of
              (Inl e', \<sigma>'') \<Rightarrow> (Inl e', \<sigma>'')
            | (Inr _, \<sigma>'') \<Rightarrow> (Inl e, \<sigma>''))
       | (Inr _, \<sigma>') \<Rightarrow> exit c None \<sigma>')"

subsection \<open>The lifespan generator (lines 37--62)\<close>

definition startup_steps :: "world \<Rightarrow> string option \<Rightarrow> string option \<Rightarrow> unit io" where
  \<comment> \<open>the body of the \<^verbatim>\<open>try\<close>, lines 41--50; \<^verbatim>\<open>state.engine\<close> read at lines 43 and 46
      is the object stored at line 41\<close>
  "startup_steps w db_url redis_url =
     io_bind (call (Create_engine db_url) (create_async_engine w db_url)) (\<lambda>e.
     io_bind (modify (\<lambda>s. s\<lparr>engine := Some e\<rparr>)) (\<lambda>_.
     io_bind (call (Make_sessionmaker e) (async_sessionmaker w e)) (\<lambda>f.
     io_bind (modify (\<lambda>s. s\<lparr>async_session := Some f\<rparr>)) (\<lambda>_.
     io_bind (async_with (call (Begin e) (engine_begin w e))
                (\<lambda>c body_exn. call_unit (Begin_exit c body_exn) (begin_aexit w c body_exn))
                (\<lambda>c. call_unit (Create_all c) (run_sync_create_all w c))) (\<lambda>_.
     io_bind (call (From_url redis_url) (from_url w redis_url)) (\<lambda>r.
     io_bind (modify (\<lambda>s. s\<lparr>redis_client := Some r\<rparr>)) (\<lambda>_.
     emit (Log_info ''Template Service started successfully''))))))))"

definition lifespan_startup :: "world \<Rightarrow> string option \<Rightarrow> string option \<Rightarrow> unit io" where
  \<comment> \<open>lines 39--54: the code before \<^verbatim>\<open>yield\<close>\<close>
  "lifespan_startup w db_url redis_url =
     try_except (startup_steps w db_url redis_url) except_Exception
       (\<lambda>e. io_bind (emit (Log_error (''Failed to start Template Service: '' @ str e)))
               (\<lambda>_. io_raise e))"

definition lifespan_shutdown :: "world \<Rightarrow> unit io" where
  \<comment> \<open>lines 58--62: the code after \<^verbatim>\<open>yield\<close>\<close>
  "lifespan_shutdown w =
     io_bind (gets engine) (\<lambda>eo.
     io_bind (case eo of Some e \<Rightarrow> call_unit (Dispose e) (engine_dispose w e)
                       | None \<Rightarrow> io_return ()) (\<lambda>_.
     io_bind (gets redis_client) (\<lambda>ro.
     io_bind (case ro of Some r \<Rightarrow> call_unit (Close r) (redis_close w r)
                       | None \<Rightarrow> io_return ()) (\<lambda>_.
     emit (Log_info ''Template Service shut down'')))))"


definition result_of :: "(exn + 'a) \<times> state \<times> event list \<Rightarrow> exn + 'a" where
  "result_of r = fst r"

definition state_of :: "(exn + 'a) \<times> state \<times> event list \<Rightarrow> state" where
  "state_of r = fst (snd r)"

definition trace_of :: "(exn + 'a) \<times> state \<times> event list \<Rightarrow> event list" where
  "trace_of r = snd (snd r)"



fun stage :: "event \<Rightarrow> nat" where
  \<comment> \<open>the position of a start-up call in lines 41--49\<close>
  "stage (Create_engine u) = 0"
| "stage (Make_sessionmaker e) = 1"
| "stage (Begin e) = 2"
| "stage (Create_all c) = 3"
| "stage (Begin_exit c x) = 4"
| "stage (From_url u) = 5"
| "stage ev = 6"

subsection \<open>The health endpoint (lines 83--100)\<close>

text \<open>
  Modelled from the spec: \<^verbatim>\<open>src.schemas.HealthResponse\<close> is not among the sources;
  the spec gives the response these five fields.
\<close>

record HealthResponse =
  status :: string
  service :: string
  timestamp :: string
  database_connected :: bool
  redis_connected :: bool

definition digit :: "nat \<Rightarrow> char" where
  "digit n = ''0123456789'' ! (n mod 10)"

fun decimal :: "nat \<Rightarrow> string" where
  "decimal n = (if n < 10 then [digit n] else decimal (n div 10) @ [digit n])"

definition zero_pad :: "nat \<Rightarrow> nat \<Rightarrow> string" where
  \<comment> \<open>\<^verbatim>\<open>"%0<width>d" % n\<close>\<close>
  "zero_pad width n = replicate (width - length (decimal n)) CHR ''0'' @ decimal n"

definition isoformat :: "datetime \<Rightarrow> string" where
  \<comment> \<open>\<^verbatim>\<open>datetime.isoformat()\<close> of a datetime whose tzinfo is \<^verbatim>\<open>timezone.utc\<close>\<close>
  "isoformat d =
     zero_pad 4 (year d) @ ''-'' @ zero_pad 2 (month d) @ ''-'' @ zero_pad 2 (day d) @ ''T'' @
     zero_pad 2 (hour d) @ '':'' @ zero_pad 2 (minute d) @ '':'' @ zero_pad 2 (second d) @
     (if microsecond d \<noteq> 0 then ''.'' @ zero_pad 6 (microsecond d) else []) @ ''+00:00''"

definition probe :: "world \<Rightarrow> state \<Rightarrow> bool \<times> exn option" where
  \<comment> \<open>the \<^verbatim>\<open>try\<close> block, lines 88--90: the value of \<^verbatim>\<open>db_connected\<close> when the block
      is left and the exception it is left with; calling \<^verbatim>\<open>None\<close> raises a
      \<^verbatim>\<open>TypeError\<close> (an \<^verbatim>\<open>Exception\<close>) whose \<^verbatim>\<open>str\<close> is the message below\<close>
  "probe w st =
     (case async_session st of
        None \<Rightarrow> (False, Some (Exception '''NoneType' object is not callable''))
      | Some f \<Rightarrow>
          (case session_open w f of
             Inl e \<Rightarrow> (False, Some e)
           | Inr s \<Rightarrow>
               (case session_execute w s of
                  Some e \<Rightarrow>
                    (False, (case session_aexit w s (Some e) of Some e' \<Rightarrow> Some e'
                                                             | None \<Rightarrow> Some e))
                | None \<Rightarrow> (True, session_aexit w s None))))"

definition health_check :: "world \<Rightarrow> state \<Rightarrow> exn + HealthResponse" where
  "health_check w st =
     (case probe w st of (db_connected, raised) \<Rightarrow>
        (case (case raised of Some e \<Rightarrow> if except_bare e then None else Some e
                            | None \<Rightarrow> None) of
           Some e \<Rightarrow> Inl e
         | None \<Rightarrow>
             Inr \<lparr>status = ''healthy'',
                  service = ''template-service'',
                  timestamp = isoformat (now_utc w),
                  database_connected = db_connected,
                  redis_connected = (redis_client st \<noteq> None)\<rparr>))"

subsection \<open>Observations on a run\<close>

fun is_call :: "event \<Rightarrow> bool" where
  \<comment> \<open>the library calls of the start-up sequence\<close>
  "is_call (Log_info m) = False"
| "is_call (Log_error m) = False"
| "is_call Yield = False"
| "is_call (Dispose e) = False"
| "is_call (Close r) = False"
| "is_call ev = True"


definition startup_calls ::
  "world \<Rightarrow> string option \<Rightarrow> string option \<Rightarrow> state \<Rightarrow> event list" where
  "startup_calls w d u s = filter is_call (trace_of (lifespan_startup w d u (s, [])))"

subsection \<open>Concrete environments\<close>

definition w_ok :: world where
  \<comment> \<open>every library call succeeds\<close>
  "w_ok = \<lparr>create_async_engine = (\<lambda>u. Inr 10), async_sessionmaker = (\<lambda>e. Inr 20),
     engine_begin = (\<lambda>e. Inr 30), run_sync_create_all = (\<lambda>c. None),
     begin_aexit = (\<lambda>c x. None), from_url = (\<lambda>u. Inr 40), served = None,
     engine_dispose = (\<lambda>e. None), redis_close = (\<lambda>r. None),
     session_open = (\<lambda>f. Inr 50), session_execute = (\<lambda>s. None),
     session_aexit = (\<lambda>s x. None),
     now_utc = \<lparr>year = 2026, month = 11, day = 4, hour = 9, minute = 5, second = 7,
                 microsecond = 1234\<rparr>\<rparr>"

definition w_cache_down :: world where
  \<comment> \<open>the pool and the schema are fine, the cache refuses the connection\<close>
  "w_cache_down = w_ok\<lparr>from_url := (\<lambda>u. Inl (Exception ''Connection refused''))\<rparr>"

definition w_cancelled :: world where
  \<comment> \<open>the start-up task is cancelled while the schema is created\<close>
  "w_cancelled =
     w_ok\<lparr>run_sync_create_all := (\<lambda>c. Some (BaseException ''CancelledError''))\<rparr>"

definition w_db_down :: world where
  \<comment> \<open>the probe query of the health endpoint fails\<close>
  "w_db_down = w_ok\<lparr>session_execute := (\<lambda>s. Some (Exception ''connection lost''))\<rparr>"

definition w_unreachable :: world where
  \<comment> \<open>the engine is built lazily; the database refuses the first connection\<close>
  "w_unreachable = w_ok\<lparr>engine_begin := (\<lambda>e. Inl (Exception ''Connection refused''))\<rparr>"

definition w_bad_url :: world where
  \<comment> \<open>the database URL is rejected when the engine is built\<close>
  "w_bad_url = w_ok\<lparr>create_async_engine :=
     (\<lambda>u. Inl (Exception ''Could not parse SQLAlchemy URL''))\<rparr>"

definition unset_state :: state where
  "unset_state = \<lparr>engine = None, async_session = None, redis_client = None\<rparr>"

definition environ_example :: "string \<rightharpoonup> string" where
  "environ_example = [''DATABASE_URL'' \<mapsto> ''postgresql://u:p@host/db'',
                      ''REDIS_URL'' \<mapsto> ''redis://host:6379'']"

subsection \<open>Facts about the string functions\<close>

lemma startswith_append: "startswith (p @ r) p"
  by (induction p) simp_all

lemma startswith_split: "startswith s p \<Longrightarrow> s = p @ drop (length p) s"
  by (induction s p rule: startswith.induct) simp_all

lemma replace_first_prefix:
  "startswith s old \<Longrightarrow> replace_first s old new = new @ drop (length old) s"
  by (cases s; cases old) simp_all

lemma asyncpg_not_generic: "\<not> startswith (asyncpg_scheme @ r) generic_scheme"
  by (simp add: asyncpg_scheme_def generic_scheme_def)

subsection \<open>Scheme rewriting\<close>

text \<open>
  C3. Every database URL that begins with \<^verbatim>\<open>postgresql://\<close> is rewritten to
  \<^verbatim>\<open>postgresql+asyncpg://\<close> followed by exactly the characters that followed the
  generic scheme: only the occurrence at the front is replaced, whatever the rest
  contains.
\<close>

theorem normalize_url_rewrites:
  assumes "startswith s generic_scheme"
  shows "s = generic_scheme @ drop (length generic_scheme) s \<and>
         normalize_url (Some s) = Some (asyncpg_scheme @ drop (length generic_scheme) s) \<and>
         DATABASE_URL [''DATABASE_URL'' \<mapsto> s] =
           Some (asyncpg_scheme @ drop (length generic_scheme) s)"
proof -
  have split: "s = generic_scheme @ drop (length generic_scheme) s"
    using assms by (rule startswith_split)
  have "s \<noteq> []"
    using assms by (cases s) (simp_all add: generic_scheme_def)
  then have "normalize_url (Some s) = Some (asyncpg_scheme @ drop (length generic_scheme) s)"
    using assms by (simp add: normalize_url_def replace_first_prefix)
  then show ?thesis
    using split by (simp add: DATABASE_URL_def)
qed

theorem normalize_url_rewrites_witness:
  "startswith ''postgresql://u:p@host/postgresql://db'' generic_scheme \<and>
   normalize_url (Some ''postgresql://u:p@host/postgresql://db'') =
     Some ''postgresql+asyncpg://u:p@host/postgresql://db''"
  using normalize_url_rewrites [of "''postgresql://u:p@host/postgresql://db''"]
  by (simp add: generic_scheme_def asyncpg_scheme_def)

text \<open>
  C4. A database URL that does not begin with \<^verbatim>\<open>postgresql://\<close> is returned as it
  is, an unset variable stays unset, and normalising twice is normalising once.
\<close>

theorem normalize_url_idempotent:
  "(\<not> startswith s generic_scheme \<longrightarrow> normalize_url (Some s) = Some s) \<and>
   normalize_url (Some (asyncpg_scheme @ r)) = Some (asyncpg_scheme @ r) \<and>
   normalize_url None = None \<and>
   normalize_url (normalize_url url) = normalize_url url"
proof -
  have keep: "normalize_url (Some t) = Some t" if "\<not> startswith t generic_scheme" for t
    using that by (simp add: normalize_url_def)
  have twice: "normalize_url (normalize_url url) = normalize_url url"
  proof (cases url)
    case None
    then show ?thesis by (simp add: normalize_url_def)
  next
    case (Some t)
    show ?thesis
    proof (cases "t \<noteq> [] \<and> startswith t generic_scheme")
      case True
      then have "normalize_url (Some t) = Some (asyncpg_scheme @ drop (length generic_scheme) t)"
        by (simp add: normalize_url_def replace_first_prefix)
      then show ?thesis
        using Some keep [OF asyncpg_not_generic] by simp
    next
      case False
      then have "normalize_url (Some t) = Some t"
        by (auto simp: normalize_url_def)
      then show ?thesis using Some by simp
    qed
  qed
  show ?thesis
    using keep [OF asyncpg_not_generic] twice by (simp add: keep normalize_url_def)
qed

theorem normalize_url_idempotent_witness:
  "\<not> startswith ''sqlite:///t.db'' generic_scheme \<and>
   normalize_url (Some ''sqlite:///t.db'') = Some ''sqlite:///t.db'' \<and>
   normalize_url (Some ''postgresql+asyncpg://u:p@host/db'') =
     Some ''postgresql+asyncpg://u:p@host/db'' \<and>
   normalize_url (normalize_url (Some ''postgresql://u:p@host/db'')) =
     normalize_url (Some ''postgresql://u:p@host/db'')"
  using normalize_url_idempotent [of "''sqlite:///t.db''" "''u:p@host/db''"
      "Some ''postgresql://u:p@host/db''"]
  by (simp add: generic_scheme_def asyncpg_scheme_def)

subsection \<open>Facts about the statements\<close>

lemmas io_defs = io_return_def io_raise_def io_bind_def emit_def gets_def modify_def
  call_def call_unit_def try_except_def async_with_def

lemmas obs_defs = result_of_def state_of_def trace_of_def

lemmas world_defs = w_ok_def w_cache_down_def w_cancelled_def w_db_down_def w_bad_url_def
  w_unreachable_def
  unset_state_def

lemma environ_example_urls:
  "DATABASE_URL environ_example = Some ''postgresql+asyncpg://u:p@host/db''"
  "REDIS_URL environ_example = Some ''redis://host:6379''"
  by (simp_all add: DATABASE_URL_def REDIS_URL_def environ_example_def normalize_url_def
      generic_scheme_def asyncpg_scheme_def)

text \<open>The start-up sequence, one branch for each place where it can stop.\<close>

lemma startup_steps_unfold:
  "startup_steps w d u (s, tr) =
     (case create_async_engine w d of
        Inl x \<Rightarrow> (Inl x, s, tr @ [Create_engine d])
      | Inr e \<Rightarrow>
     (case async_sessionmaker w e of
        Inl x \<Rightarrow> (Inl x, s\<lparr>engine := Some e\<rparr>, tr @ [Create_engine d, Make_sessionmaker e])
      | Inr f \<Rightarrow>
     (case engine_begin w e of
        Inl x \<Rightarrow> (Inl x, s\<lparr>engine := Some e, async_session := Some f\<rparr>,
                  tr @ [Create_engine d, Make_sessionmaker e, Begin e])
      | Inr c \<Rightarrow>
     (case run_sync_create_all w c of
        Some x \<Rightarrow>
          (Inl (case begin_aexit w c (Some x) of Some x' \<Rightarrow> x' | None \<Rightarrow> x),
           s\<lparr>engine := Some e, async_session := Some f\<rparr>,
           tr @ [Create_engine d, Make_sessionmaker e, Begin e, Create_all c,
                 Begin_exit c (Some x)])
      | None \<Rightarrow>
     (case begin_aexit w c None of
        Some x \<Rightarrow>
          (Inl x, s\<lparr>engine := Some e, async_session := Some f\<rparr>,
           tr @ [Create_engine d, Make_sessionmaker e, Begin e, Create_all c,
                 Begin_exit c None])
      | None \<Rightarrow>
     (case from_url w u of
        Inl x \<Rightarrow>
          (Inl x, s\<lparr>engine := Some e, async_session := Some f\<rparr>,
           tr @ [Create_engine d, Make_sessionmaker e, Begin e, Create_all c,
                 Begin_exit c None, From_url u])
      | Inr r \<Rightarrow>
          (Inr (), s\<lparr>engine := Some e, async_session := Some f, redis_client := Some r\<rparr>,
           tr @ [Create_engine d, Make_sessionmaker e, Begin e, Create_all c,
                 Begin_exit c None, From_url u,
                 Log_info ''Template Service started successfully''])))))))"
  by (simp add: startup_steps_def io_defs split: sum.splits option.splits)

lemma lifespan_startup_unfold:
  "lifespan_startup w d u \<sigma> =
     (case startup_steps w d u \<sigma> of
        (Inl x, s', tr') \<Rightarrow>
          if except_Exception x
          then (Inl x, s', tr' @ [Log_error (''Failed to start Template Service: '' @ str x)])
          else (Inl x, s', tr')
      | (Inr v, \<sigma>') \<Rightarrow> (Inr v, \<sigma>'))"
  by (simp add: lifespan_startup_def io_defs split: prod.splits sum.splits)

lemma startup_ok_run:
  "lifespan_startup w_ok d u (unset_state, []) =
     (Inr (), \<lparr>engine = Some 10, async_session = Some 20, redis_client = Some 40\<rparr>,
      [Create_engine d, Make_sessionmaker 10, Begin 10, Create_all 30, Begin_exit 30 None,
       From_url u, Log_info ''Template Service started successfully''])"
  by (simp add: lifespan_startup_unfold startup_steps_unfold world_defs)



lemma startup_bad_url_run:
  "lifespan_startup w_bad_url d u (unset_state, []) =
     (Inl (Exception ''Could not parse SQLAlchemy URL''), unset_state,
      [Create_engine d,
       Log_error ''Failed to start Template Service: Could not parse SQLAlchemy URL''])"
  by (simp add: lifespan_startup_unfold startup_steps_unfold world_defs)



lemma startup_success:
  "result_of (lifespan_startup w d u (s, tr)) = Inr () \<Longrightarrow>
   \<exists>e f r tr'. create_async_engine w d = Inr e \<and> from_url w u = Inr r \<and>
      lifespan_startup w d u (s, tr) =
        (Inr (), s\<lparr>engine := Some e, async_session := Some f, redis_client := Some r\<rparr>, tr')"
  by (auto simp: lifespan_startup_unfold startup_steps_unfold result_of_def
      split: sum.splits option.splits if_splits)


subsection \<open>Facts about the health endpoint\<close>

lemma health_check_response:
  "health_check w st =
     Inr \<lparr>status = ''healthy'', service = ''template-service'',
          timestamp = isoformat (now_utc w),
          database_connected = fst (probe w st),
          redis_connected = (redis_client st \<noteq> None)\<rparr>"
proof -
  obtain b r where p: "probe w st = (b, r)" by (cases "probe w st")
  have "(case r of Some e \<Rightarrow> if except_bare e then None else Some e | None \<Rightarrow> None) = None"
  proof (cases r)
    case None
    then show ?thesis by simp
  next
    case (Some e)
    then show ?thesis by (cases e) simp_all
  qed
  then show ?thesis by (simp add: health_check_def p)
qed

lemma probe_connected:
  "fst (probe w st) =
     (case async_session st of
        None \<Rightarrow> False
      | Some f \<Rightarrow> (case session_open w f of Inl e \<Rightarrow> False
                                          | Inr s \<Rightarrow> session_execute w s = None))"
  by (simp add: probe_def split: option.splits sum.splits)

lemma isoformat_example:
  "isoformat \<lparr>year = 2026, month = 11, day = 4, hour = 9, minute = 5, second = 7,
              microsecond = 1234\<rparr> = ''2026-11-04T09:05:07.001234+00:00''"
  by code_simp

subsection \<open>The health endpoint never raises\<close>

text \<open>
  C1. Every call of the health endpoint returns a response, whatever the libraries do:
  the bare handler catches every exception of the probe. The response reports the
  database as connected exactly when a session factory exists, the session opened and
  the probe query returned; an exception raised while the session is opened or while the
  query runs therefore gives \<open>database_connected = False\<close>.
\<close>

theorem health_check_never_raises:
  "\<exists>r. health_check w st = Inr r \<and>
       database_connected r =
         (case async_session st of
            None \<Rightarrow> False
          | Some f \<Rightarrow> (case session_open w f of Inl e \<Rightarrow> False
                                              | Inr s \<Rightarrow> session_execute w s = None))"
  by (simp add: health_check_response probe_connected)

theorem health_check_never_raises_witness:
  "health_check w_db_down \<lparr>engine = Some 10, async_session = Some 20, redis_client = Some 40\<rparr> =
     Inr \<lparr>status = ''healthy'', service = ''template-service'',
          timestamp = ''2026-11-04T09:05:07.001234+00:00'',
          database_connected = False, redis_connected = True\<rparr>"
  using health_check_never_raises [of w_db_down
      "\<lparr>engine = Some 10, async_session = Some 20, redis_client = Some 40\<rparr>"]
  by (simp add: health_check_response probe_connected isoformat_example w_db_down_def w_ok_def)

subsection \<open>Cache presence\<close>

text \<open>
  C6. The field \<open>redis_connected\<close> of the response is true exactly when the stored
  cache client reference is not \<open>None\<close>. It is the same for any two behaviours of the
  libraries at call time, and after a start-up that completed it is true.
\<close>

theorem health_redis_presence:
  "(\<exists>r r'. health_check w st = Inr r \<and> health_check w' st = Inr r' \<and>
       redis_connected r = (redis_client st \<noteq> None) \<and> redis_connected r' = redis_connected r) \<and>
   (result_of (lifespan_startup w0 d u (s, tr)) = Inr () \<longrightarrow>
      (\<exists>r. health_check w (state_of (lifespan_startup w0 d u (s, tr))) = Inr r \<and>
           redis_connected r))"
proof (intro conjI impI)
  show "\<exists>r r'. health_check w st = Inr r \<and> health_check w' st = Inr r' \<and>
       redis_connected r = (redis_client st \<noteq> None) \<and> redis_connected r' = redis_connected r"
    by (simp add: health_check_response)
next
  assume "result_of (lifespan_startup w0 d u (s, tr)) = Inr ()"
  then obtain e f r tr' where "lifespan_startup w0 d u (s, tr) =
        (Inr (), s\<lparr>engine := Some e, async_session := Some f, redis_client := Some r\<rparr>, tr')"
    using startup_success by blast
  then show "\<exists>r. health_check w (state_of (lifespan_startup w0 d u (s, tr))) = Inr r \<and>
           redis_connected r"
    by (simp add: health_check_response state_of_def)
qed

theorem health_redis_presence_witness:
  "result_of (lifespan_startup w_ok (DATABASE_URL environ_example) (REDIS_URL environ_example)
      (unset_state, [])) = Inr () \<and>
   health_check w_db_down (state_of (lifespan_startup w_ok (DATABASE_URL environ_example)
      (REDIS_URL environ_example) (unset_state, []))) =
     Inr \<lparr>status = ''healthy'', service = ''template-service'',
          timestamp = ''2026-11-04T09:05:07.001234+00:00'',
          database_connected = False, redis_connected = True\<rparr> \<and>
   health_check w_ok unset_state =
     Inr \<lparr>status = ''healthy'', service = ''template-service'',
          timestamp = ''2026-11-04T09:05:07.001234+00:00'',
          database_connected = False, redis_connected = False\<rparr>"
  using health_redis_presence [of w_db_down "unset_state" w_ok w_ok
      "DATABASE_URL environ_example" "REDIS_URL environ_example" unset_state "[]"]
  by (simp add: startup_ok_run obs_defs health_check_response probe_connected)
     (simp add: isoformat_example w_db_down_def w_ok_def unset_state_def)

subsection \<open>Constant fields of the response\<close>

text \<open>
  C7. Whatever the probe and the presence check give, the response has the status
  \<^verbatim>\<open>healthy\<close>, the service name \<^verbatim>\<open>template-service\<close> and, as timestamp, the ISO-8601
  rendering of the current UTC time.
\<close>

theorem health_constant_fields:
  "\<exists>r. health_check w st = Inr r \<and> status r = ''healthy'' \<and>
       service r = ''template-service'' \<and> timestamp r = isoformat (now_utc w)"
  by (simp add: health_check_response)

theorem health_constant_fields_witness:
  "\<exists>r. health_check w_db_down unset_state = Inr r \<and> status r = ''healthy'' \<and>
       service r = ''template-service'' \<and>
       timestamp r = ''2026-11-04T09:05:07.001234+00:00''"
  using health_constant_fields [of w_db_down unset_state]
  by (simp add: isoformat_example w_db_down_def w_ok_def)

subsection \<open>The endpoint before the session factory exists\<close>

text \<open>
  C10. When the state container holds no session factory, calling it raises a TypeError
  inside the \<^verbatim>\<open>try\<close> block; the bare handler catches it and the endpoint returns a
  response with \<open>database_connected = False\<close>.
\<close>

theorem health_check_without_factory:
  assumes "async_session st = None"
  shows "probe w st =
           (False, Some (Exception '''NoneType' object is not callable'')) \<and>
         health_check w st =
           Inr \<lparr>status = ''healthy'', service = ''template-service'',
                timestamp = isoformat (now_utc w), database_connected = False,
                redis_connected = (redis_client st \<noteq> None)\<rparr>"
  using assms by (simp add: health_check_response probe_def)

theorem health_check_without_factory_witness:
  "async_session unset_state = None \<and>
   health_check w_ok unset_state =
     Inr \<lparr>status = ''healthy'', service = ''template-service'',
          timestamp = ''2026-11-04T09:05:07.001234+00:00'', database_connected = False,
          redis_connected = False\<rparr>"
  using health_check_without_factory [of unset_state w_ok]
  by (simp add: unset_state_def w_ok_def isoformat_example)

subsection \<open>Shut-down with a missing resource\<close>

text \<open>
  C8. At shut-down, when the pool reference is \<open>None\<close> and a cache client is stored, the
  dispose step is skipped and the client is closed; when a pool is stored and the cache
  reference is \<open>None\<close>, the pool is disposed and the close step is skipped. The skipped
  step raises nothing: the only exception that can leave the shut-down is the one the
  release of the present resource raises.
\<close>

theorem shutdown_independent:
  "(engine s = None \<and> redis_client s = Some r \<longrightarrow>
      lifespan_shutdown w (s, tr) =
        (case redis_close w r of
           Some x \<Rightarrow> (Inl x, s, tr @ [Close r])
         | None \<Rightarrow> (Inr (), s, tr @ [Close r, Log_info ''Template Service shut down'']))) \<and>
   (engine s = Some e \<and> redis_client s = None \<longrightarrow>
      lifespan_shutdown w (s, tr) =
        (case engine_dispose w e of
           Some x \<Rightarrow> (Inl x, s, tr @ [Dispose e])
         | None \<Rightarrow> (Inr (), s, tr @ [Dispose e, Log_info ''Template Service shut down''])))"
  by (simp add: lifespan_shutdown_def io_defs split: option.splits)

theorem shutdown_independent_witness:
  "lifespan_shutdown w_ok (\<lparr>engine = None, async_session = None, redis_client = Some 40\<rparr>, []) =
     (Inr (), \<lparr>engine = None, async_session = None, redis_client = Some 40\<rparr>,
      [Close 40, Log_info ''Template Service shut down'']) \<and>
   lifespan_shutdown w_ok (\<lparr>engine = Some 10, async_session = Some 20, redis_client = None\<rparr>, []) =
     (Inr (), \<lparr>engine = Some 10, async_session = Some 20, redis_client = None\<rparr>,
      [Dispose 10, Log_info ''Template Service shut down''])"
  using
    shutdown_independent
      [of "\<lparr>engine = None, async_session = None, redis_client = Some 40\<rparr>" 40 w_ok "[]" 0]
    shutdown_independent
      [of "\<lparr>engine = Some 10, async_session = Some 20, redis_client = None\<rparr>" 0 w_ok "[]" 10]
  by (simp add: w_ok_def)

subsection \<open>Releases over a whole run\<close>




subsection \<open>Order of the start-up calls\<close>

lemma startup_calls_eq:
  "startup_calls w d u s =
     Create_engine d #
     (case create_async_engine w d of
        Inl x \<Rightarrow> []
      | Inr e \<Rightarrow>
          Make_sessionmaker e #
          (case async_sessionmaker w e of
             Inl x \<Rightarrow> []
           | Inr f \<Rightarrow>
               Begin e #
               (case engine_begin w e of
                  Inl x \<Rightarrow> []
                | Inr c \<Rightarrow>
                    Create_all c # Begin_exit c (run_sync_create_all w c) #
                    (if run_sync_create_all w c = None \<and> begin_aexit w c None = None
                     then [From_url u] else []))))"
  by (cases "create_async_engine w d";
      cases "async_sessionmaker w (projr (create_async_engine w d))";
      cases "engine_begin w (projr (create_async_engine w d))";
      cases "run_sync_create_all w (projr (engine_begin w (projr (create_async_engine w d))))";
      cases "begin_aexit w (projr (engine_begin w (projr (create_async_engine w d)))) None";
      cases "from_url w u")
     (simp_all add: startup_calls_def lifespan_startup_unfold startup_steps_unfold trace_of_def)

text \<open>
  C9. The library calls of start-up are made in the order of the source, each at most
  once and none skipped: engine construction, session factory, transaction begin,
  create-all, transaction exit, cache connection. A later call is made only after the
  earlier ones have returned without raising: the transaction is begun on the engine that
  was built, create-all runs on the connection of that transaction, and the cache is
  connected only after create-all and the transaction exit have returned.
\<close>

theorem startup_sequential:
  "(\<exists>rest. startup_calls w d u s = Create_engine d # rest) \<and>
   map stage (startup_calls w d u s) = [0..<length (startup_calls w d u s)] \<and>
   (\<forall>e. Begin e \<in> set (startup_calls w d u s) \<longrightarrow>
        create_async_engine w d = Inr e \<and> (\<exists>f. async_sessionmaker w e = Inr f)) \<and>
   (\<forall>c. Create_all c \<in> set (startup_calls w d u s) \<longrightarrow>
        (\<exists>e. create_async_engine w d = Inr e \<and> engine_begin w e = Inr c)) \<and>
   (\<forall>v. From_url v \<in> set (startup_calls w d u s) \<longrightarrow>
        v = u \<and>
        (\<exists>e c. create_async_engine w d = Inr e \<and> engine_begin w e = Inr c \<and>
               run_sync_create_all w c = None \<and> begin_aexit w c None = None))"
proof (intro conjI allI impI)
  show "\<exists>rest. startup_calls w d u s = Create_engine d # rest"
    by (simp add: startup_calls_eq)
  show "map stage (startup_calls w d u s) = [0..<length (startup_calls w d u s)]"
    by (simp add: startup_calls_eq split: sum.splits)
next
  fix e assume "Begin e \<in> set (startup_calls w d u s)"
  then show "create_async_engine w d = Inr e"
    by (auto simp: startup_calls_eq split: sum.splits if_splits)
next
  fix e assume "Begin e \<in> set (startup_calls w d u s)"
  then show "\<exists>f. async_sessionmaker w e = Inr f"
    by (cases "async_sessionmaker w e")
       (auto simp: startup_calls_eq split: sum.splits if_splits)
next
  fix c assume "Create_all c \<in> set (startup_calls w d u s)"
  then show "\<exists>e. create_async_engine w d = Inr e \<and> engine_begin w e = Inr c"
    by (cases "create_async_engine w d")
       (auto simp: startup_calls_eq split: sum.splits if_splits)
next
  fix v assume "From_url v \<in> set (startup_calls w d u s)"
  then show "v = u"
    by (auto simp: startup_calls_eq split: sum.splits if_splits)
next
  fix v assume "From_url v \<in> set (startup_calls w d u s)"
  then show "\<exists>e c. create_async_engine w d = Inr e \<and> engine_begin w e = Inr c \<and>
               run_sync_create_all w c = None \<and> begin_aexit w c None = None"
    by (cases "create_async_engine w d"; cases "engine_begin w (projr (create_async_engine w d))")
       (auto simp: startup_calls_eq split: sum.splits if_splits)
qed

theorem startup_sequential_witness:
  "startup_calls w_ok (DATABASE_URL environ_example) (REDIS_URL environ_example) unset_state =
     [Create_engine (Some ''postgresql+asyncpg://u:p@host/db''), Make_sessionmaker 10, Begin 10,
      Create_all 30, Begin_exit 30 None, From_url (Some ''redis://host:6379'')] \<and>
   create_async_engine w_ok (DATABASE_URL environ_example) = Inr 10 \<and>
   async_sessionmaker w_ok 10 = Inr 20 \<and> engine_begin w_ok 10 = Inr 30 \<and>
   run_sync_create_all w_ok 30 = None \<and> begin_aexit w_ok 30 None = None"
  using startup_sequential
      [of w_ok "DATABASE_URL environ_example" "REDIS_URL environ_example" unset_state]
  by (simp add: startup_calls_def startup_ok_run obs_defs environ_example_urls)
     (simp add: w_ok_def)

subsection \<open>Failures of start-up\<close>









end
